theory Spec2Isabelle
  imports Complex_Main
begin

section \<open>Data model: cells, series and data frames\<close>

text \<open>
  The program (\<^verbatim>\<open>app.py\<close>) works on one pandas table. A cell is a number, a text, a
  parsed time stamp (nanoseconds) or a missing entry (\<^verbatim>\<open>NaN\<close>, \<^verbatim>\<open>pd.NA\<close>, \<^verbatim>\<open>NaT\<close>). A series
  carries its dtype beside its values (the loader reads with the nullable dtypes, so a
  column of numbers is \<^verbatim>\<open>Int64\<close> or \<^verbatim>\<open>Float64\<close>, a column of texts \<^verbatim>\<open>string\<close>, a mixed
  column \<^verbatim>\<open>object\<close>), a data frame its row labels and its named columns in order. The
  column names of a table that \<^verbatim>\<open>read_excel\<close> returns are unique; the properties that need
  this assume \<open>distinct (map fst (columns df))\<close>.

  Floating-point numbers are idealised as reals, and a float that may be \<^verbatim>\<open>NaN\<close> is a
  \<open>real option\<close> with \<open>None\<close> for \<^verbatim>\<open>NaN\<close>: rounding and overflow are outside this model.
\<close>

datatype cell = Num real | Txt string | Dt int | NA

datatype dtype = Float64 | Int64 | String | Object | Datetime64

record series =
  dtype :: dtype
  vals :: "cell list"

record dataframe =
  index :: "nat list"
  columns :: "(string \<times> series) list"

datatype error = FileNotFoundError | ReadError | KeyError | NotASeries | ValueError

text \<open>\<^verbatim>\<open>len(df)\<close> is the number of row labels.\<close>

definition len_df :: "dataframe \<Rightarrow> nat" where
  "len_df df = length (index df)"

text \<open>
  \<^verbatim>\<open>df[c]\<close> used as a series: the column named \<open>c\<close>. A missing name raises \<^verbatim>\<open>KeyError\<close>.
  A name carried by several columns selects a frame, not a series, and what the program
  then does with it raises (\<^verbatim>\<open>TypeError\<close> in the numeric coercion, \<^verbatim>\<open>AttributeError\<close> at
  \<^verbatim>\<open>.dtype\<close>, \<^verbatim>\<open>ValueError\<close> in the date parser): the error \<open>NotASeries\<close>.
\<close>

definition getitem :: "dataframe \<Rightarrow> string \<Rightarrow> error + series" where
  "getitem df c =
     (case filter (\<lambda>p. fst p = c) (columns df) of
        [] \<Rightarrow> Inl KeyError
      | [p] \<Rightarrow> Inr (snd p)
      | _ \<Rightarrow> Inl NotASeries)"

section \<open>Numeric coercion and sample statistics\<close>

text \<open>
  \<^verbatim>\<open>pd.to_numeric(s, errors="coerce")\<close>. The parser of numeric text belongs to pandas and is a
  parameter \<open>parse\<close>; text it rejects becomes missing. A date-time column is read through its
  64-bit integer view, in which \<^verbatim>\<open>NaT\<close> is the smallest 64-bit integer.
\<close>

definition iNaT :: int where
  "iNaT = - (2 ^ 63)"

fun coerce :: "(string \<Rightarrow> real option) \<Rightarrow> cell \<Rightarrow> real option" where
  "coerce parse (Num x) = Some x"
| "coerce parse (Txt s) = parse s"
| "coerce parse (Dt t) = None"
| "coerce parse NA = None"

fun int64_view :: "cell \<Rightarrow> real option" where
  "int64_view (Dt t) = Some (of_int t)"
| "int64_view c = Some (of_int iNaT)"

definition to_numeric :: "(string \<Rightarrow> real option) \<Rightarrow> series \<Rightarrow> real option list" where
  "to_numeric parse s =
     (if dtype s = Datetime64 then map int64_view (vals s)
      else map (coerce parse) (vals s))"

text \<open>\<^verbatim>\<open>Series.dropna()\<close> on coerced values, and \<^verbatim>\<open>Series.count()\<close>.\<close>

fun dropna :: "real option list \<Rightarrow> real list" where
  "dropna [] = []"
| "dropna (None # vs) = dropna vs"
| "dropna (Some x # vs) = x # dropna vs"

definition count_series :: "real option list \<Rightarrow> nat" where
  "count_series vs = length (dropna vs)"

text \<open>
  The reductions of pandas over the non-missing values \<open>xs\<close>: each is \<^verbatim>\<open>NaN\<close> where pandas
  gives \<^verbatim>\<open>NaN\<close> (no value at all; for \<^verbatim>\<open>ddof=1\<close>, fewer than two values).
\<close>

definition mean_of :: "real list \<Rightarrow> real" where
  "mean_of xs = sum_list xs / real (length xs)"

definition var_ddof1 :: "real list \<Rightarrow> real" where
  "var_ddof1 xs = sum_list (map (\<lambda>x. (x - mean_of xs)\<^sup>2) xs) / real (length xs - 1)"

definition series_mean :: "real list \<Rightarrow> real option" where
  "series_mean xs = (if xs = [] then None else Some (mean_of xs))"

definition series_var :: "real list \<Rightarrow> real option" where
  "series_var xs = (if length xs \<le> 1 then None else Some (var_ddof1 xs))"

definition series_std :: "real list \<Rightarrow> real option" where
  "series_std xs = (if length xs \<le> 1 then None else Some (sqrt (var_ddof1 xs)))"

text \<open>Float arithmetic with \<^verbatim>\<open>NaN\<close> propagating.\<close>

fun nan2 :: "(real \<Rightarrow> real \<Rightarrow> real) \<Rightarrow> real option \<Rightarrow> real option \<Rightarrow> real option" where
  "nan2 f (Some x) (Some y) = Some (f x y)"
| "nan2 f _ _ = None"

section \<open>Confidence interval of the mean\<close>

text \<open>
  \<^verbatim>\<open>ic_media(amostra, alpha)\<close>. The quantile function of Student's t distribution
  (\<^verbatim>\<open>scipy.stats.t.ppf\<close>) is a parameter \<open>t_ppf\<close>: probability and degrees of freedom to a
  float.
\<close>

definition ic_media ::
  "(string \<Rightarrow> real option) \<Rightarrow> (real \<Rightarrow> nat \<Rightarrow> real option) \<Rightarrow> series \<Rightarrow> real
     \<Rightarrow> real option \<times> (real option \<times> real option)" where
  "ic_media parse t_ppf amostra alpha =
     (let amostra' = dropna (to_numeric parse amostra);
          n = length amostra';
          media = (if n \<noteq> 0 then series_mean amostra' else None);
          s = (if n > 1 then series_std amostra' else None)
      in if n \<le> 1 \<or> s = None \<or> s = Some 0 then (media, (None, None))
         else
           let t_crit = t_ppf (1 - alpha / 2) (n - 1);
               erro = nan2 (/) (nan2 (*) t_crit s) (Some (sqrt (real n)))
           in (media, (nan2 (-) media erro, nan2 (+) media erro)))"

text \<open>
  The quantile of Student's t distribution with two degrees of freedom has a closed form;
  it serves as a concrete \<open>t_ppf\<close> for samples of three values.
\<close>

definition t_ppf_df2 :: "real \<Rightarrow> nat \<Rightarrow> real option" where
  "t_ppf_df2 p df = Some ((2 * p - 1) / sqrt (2 * p * (1 - p)))"

section \<open>Descriptive statistics\<close>

text \<open>
  \<^verbatim>\<open>Series.median()\<close>, \<^verbatim>\<open>Series.min()\<close> and \<^verbatim>\<open>Series.max()\<close> over the non-missing values:
  the middle of the sorted values (the mean of the two middle ones for an even count), and
  the running minimum and maximum.
\<close>

definition median_of :: "real list \<Rightarrow> real" where
  "median_of xs =
     (let ys = sort xs; n = length ys
      in if odd n then ys ! (n div 2) else (ys ! (n div 2 - 1) + ys ! (n div 2)) / 2)"

definition series_median :: "real list \<Rightarrow> real option" where
  "series_median xs = (if xs = [] then None else Some (median_of xs))"

definition series_min :: "real list \<Rightarrow> real option" where
  "series_min xs = (case xs of [] \<Rightarrow> None | x # r \<Rightarrow> Some (fold min r x))"

definition series_max :: "real list \<Rightarrow> real option" where
  "series_max xs = (case xs of [] \<Rightarrow> None | x # r \<Rightarrow> Some (fold max r x))"

record summary_row =
  coluna :: string
  count :: nat
  mean :: "real option"
  median :: "real option"
  std :: "real option"
  var :: "real option"
  minimum :: "real option"
  maximum :: "real option"

text \<open>The dictionary that the loop of \<^verbatim>\<open>estatisticas_basicas\<close> appends for one column.\<close>

definition resumo_coluna :: "(string \<Rightarrow> real option) \<Rightarrow> string \<Rightarrow> series \<Rightarrow> summary_row" where
  "resumo_coluna parse c col =
     (let serie = to_numeric parse col;
          xs = dropna serie
      in \<lparr>coluna = c,
          count = count_series serie,
          mean = (if count_series serie \<noteq> 0 then series_mean xs else None),
          median = (if count_series serie \<noteq> 0 then series_median xs else None),
          std = (if count_series serie > 1 then series_std xs else None),
          var = (if count_series serie > 1 then series_var xs else None),
          minimum = (if count_series serie \<noteq> 0 then series_min xs else None),
          maximum = (if count_series serie \<noteq> 0 then series_max xs else None)\<rparr>)"

fun resumo_loop ::
  "(string \<Rightarrow> real option) \<Rightarrow> dataframe \<Rightarrow> string list \<Rightarrow> error + summary_row list" where
  "resumo_loop parse df [] = Inr []"
| "resumo_loop parse df (c # cs) =
     (case getitem df c of
        Inl e \<Rightarrow> Inl e
      | Inr col \<Rightarrow>
          (case resumo_loop parse df cs of
             Inl e \<Rightarrow> Inl e
           | Inr resumo \<Rightarrow> Inr (resumo_coluna parse c col # resumo)))"

definition estatisticas_basicas ::
  "(string \<Rightarrow> real option) \<Rightarrow> dataframe \<Rightarrow> string list \<Rightarrow> error + summary_row list" where
  "estatisticas_basicas parse df colunas_numericas =
     (if colunas_numericas = [] then Inr [] else resumo_loop parse df colunas_numericas)"

text \<open>
  The summary row as the specification words it, for comparison with the code: the
  non-missing values are the coerced values that are not \<^verbatim>\<open>NaN\<close>; count is their number
  \<open>N\<close>; mean and median are taken over them; standard deviation and variance divide by
  \<open>N - 1\<close> and are undefined below two values; minimum and maximum are undefined for none.
\<close>

definition spec_nonmissing :: "real option list \<Rightarrow> real list" where
  "spec_nonmissing vs = map the (filter (\<lambda>v. v \<noteq> None) vs)"

definition spec_variance :: "real list \<Rightarrow> real" where
  "spec_variance xs =
     (\<Sum>x\<leftarrow>xs. (x - sum_list xs / real (length xs))\<^sup>2) / (real (length xs) - 1)"

definition spec_median :: "real list \<Rightarrow> real" where
  "spec_median xs =
     (sort xs ! ((length xs - 1) div 2) + sort xs ! (length xs div 2)) / 2"

definition spec_summary :: "string \<Rightarrow> real option list \<Rightarrow> summary_row" where
  "spec_summary c vs =
     (let xs = spec_nonmissing vs; N = length xs
      in \<lparr>coluna = c,
          count = N,
          mean = (if N = 0 then None else Some (sum_list xs / real N)),
          median = (if N = 0 then None else Some (spec_median xs)),
          std = (if N < 2 then None else Some (sqrt (spec_variance xs))),
          var = (if N < 2 then None else Some (spec_variance xs)),
          minimum = (if N = 0 then None else Some (Min (set xs))),
          maximum = (if N = 0 then None else Some (Max (set xs)))\<rparr>)"

section \<open>Type and nullity report\<close>

text \<open>
  \<^verbatim>\<open>tabela_tipos(df)\<close>: for every column its name, the text of its dtype and the percentage
  of missing entries, rounded to two decimals (ties to the even neighbour). The division by
  the row count is taken only when the row count is not zero.
\<close>

fun isna :: "cell \<Rightarrow> bool" where
  "isna NA = True"
| "isna c = False"

fun str_dtype :: "dtype \<Rightarrow> string" where
  "str_dtype Float64 = ''Float64''"
| "str_dtype Int64 = ''Int64''"
| "str_dtype String = ''string''"
| "str_dtype Object = ''object''"
| "str_dtype Datetime64 = ''datetime64[ns]''"

definition rint :: "real \<Rightarrow> int" where
  "rint x =
     (let f = \<lfloor>x\<rfloor>; d = x - of_int f
      in if d < 1 / 2 then f else if 1 / 2 < d then f + 1 else if even f then f else f + 1)"

definition round2 :: "real \<Rightarrow> real" where
  "round2 x = of_int (rint (x * 100)) / 100"

record info_row =
  info_coluna :: string
  info_dtype :: string
  info_nulos :: real

definition info_coluna_de :: "nat \<Rightarrow> string \<Rightarrow> series \<Rightarrow> info_row" where
  "info_coluna_de n col s =
     (let nulls = length (filter isna (vals s));
          null_pct = (if n \<noteq> 0 then (real nulls / real n) * 100 else 0)
      in \<lparr>info_coluna = col, info_dtype = str_dtype (dtype s), info_nulos = round2 null_pct\<rparr>)"

text \<open>
  The loop reads \<^verbatim>\<open>df[col]\<close> for every name of \<^verbatim>\<open>df.columns\<close>.
\<close>

fun tipos_loop :: "dataframe \<Rightarrow> nat \<Rightarrow> string list \<Rightarrow> error + info_row list" where
  "tipos_loop df n [] = Inr []"
| "tipos_loop df n (col # cols) =
     (case getitem df col of
        Inl e \<Rightarrow> Inl e
      | Inr s \<Rightarrow>
          (case tipos_loop df n cols of
             Inl e \<Rightarrow> Inl e
           | Inr info \<Rightarrow> Inr (info_coluna_de n col s # info)))"

definition tabela_tipos :: "dataframe \<Rightarrow> error + info_row list" where
  "tabela_tipos df = tipos_loop df (len_df df) (map fst (columns df))"

section \<open>Dataset loader\<close>

text \<open>
  \<^verbatim>\<open>carregar_excel()\<close> reads one fixed path. The file system is the input: the file is
  absent, or \<^verbatim>\<open>pd.read_excel\<close> fails on it, or it yields a table. Column names are text.
  \<^verbatim>\<open>str.lower\<close> is modelled on ASCII letters.
\<close>

datatype file_state = Absent | Unreadable | Workbook dataframe

definition lower_char :: "char \<Rightarrow> char" where
  "lower_char c =
     (let n = (of_char c :: nat) in if 65 \<le> n \<and> n \<le> 90 then char_of (n + 32) else c)"

definition lower :: "string \<Rightarrow> string" where
  "lower s = map lower_char s"

text \<open>\<^verbatim>\<open>sub in s\<close> for strings: \<open>sub\<close> occurs in \<open>s\<close> as a contiguous block.\<close>

fun startswith :: "string \<Rightarrow> string \<Rightarrow> bool" where
  "startswith s [] = True"
| "startswith [] (p # ps) = False"
| "startswith (c # cs) (p # ps) = (c = p \<and> startswith cs ps)"

fun str_in :: "string \<Rightarrow> string \<Rightarrow> bool" where
  "str_in sub [] = (sub = [])"
| "str_in sub (c # cs) = (startswith (c # cs) sub \<or> str_in sub cs)"

definition possivel_data :: "string \<Rightarrow> bool" where
  "possivel_data c = str_in ''data'' (lower c)"

text \<open>
  \<^verbatim>\<open>pd.to_datetime(s, errors="coerce")\<close>: the parser of one entry belongs to pandas and is a
  parameter; an entry it rejects becomes missing, and the result is a date-time column.
\<close>

definition to_datetime :: "(cell \<Rightarrow> int option) \<Rightarrow> series \<Rightarrow> series" where
  "to_datetime parse_dt s =
     \<lparr>dtype = Datetime64,
      vals = map (\<lambda>c. case parse_dt c of Some t \<Rightarrow> Dt t | None \<Rightarrow> NA) (vals s)\<rparr>"

text \<open>\<^verbatim>\<open>df[c] = s\<close> for an existing name: the column of that name is replaced.\<close>

definition setitem :: "dataframe \<Rightarrow> string \<Rightarrow> series \<Rightarrow> dataframe" where
  "setitem df c s = df\<lparr>columns := map (\<lambda>p. if fst p = c then (c, s) else p) (columns df)\<rparr>"

text \<open>
  The date loop: an exception inside the \<^verbatim>\<open>try\<close> (here, a name that does not select one
  series) leaves the table as it is.
\<close>

fun parse_datas :: "(cell \<Rightarrow> int option) \<Rightarrow> dataframe \<Rightarrow> string list \<Rightarrow> dataframe" where
  "parse_datas parse_dt df [] = df"
| "parse_datas parse_dt df (c # cs) =
     parse_datas parse_dt
       (case getitem df c of
          Inr s \<Rightarrow> setitem df c (to_datetime parse_dt s)
        | Inl e \<Rightarrow> df) cs"

text \<open>The regular expression \<^verbatim>\<open>^Unnamed\<close>, searched in a column name.\<close>

definition unnamed :: "string \<Rightarrow> bool" where
  "unnamed c = startswith c ''Unnamed''"

definition carregar_excel :: "(cell \<Rightarrow> int option) \<Rightarrow> file_state \<Rightarrow> error + dataframe" where
  "carregar_excel parse_dt fs =
     (case fs of
        Absent \<Rightarrow> Inl FileNotFoundError
      | Unreadable \<Rightarrow> Inl ReadError
      | Workbook df0 \<Rightarrow>
          (let possiveis_datas = filter possivel_data (map fst (columns df0));
               df = parse_datas parse_dt df0 possiveis_datas
           in Inr (df\<lparr>columns := filter (\<lambda>p. \<not> unnamed (fst p)) (columns df)\<rparr>)))"


section \<open>Sampler\<close>





section \<open>Two-sample test panel\<close>

text \<open>
  A float that may also be infinite: the t statistic is a quotient whose denominator can be
  zero, and IEEE division then gives an infinity or \<^verbatim>\<open>NaN\<close>.
\<close>

datatype xfloat = Fin real | PInf | NInf | NaN


definition true_divide :: "real \<Rightarrow> real \<Rightarrow> xfloat" where
  "true_divide x d =
     (if d \<noteq> 0 then Fin (x / d) else if 0 < x then PInf else if x < 0 then NInf else NaN)"

text \<open>
  The pieces of Welch's test: the two-tailed p-value \<open>2 * P (T \<ge> \<bar>t\<bar>)\<close> from the survival
  function \<open>t_sf\<close> of Student's t distribution (a parameter), which is 0 for an infinite
  statistic; the Welch-Satterthwaite degrees of freedom, taken as 1 where their quotient is
  \<open>0 / 0\<close>; and the standard error of the difference of the means.
\<close>

fun pvalue :: "(real \<Rightarrow> real \<Rightarrow> real) \<Rightarrow> xfloat \<Rightarrow> real \<Rightarrow> xfloat" where
  "pvalue t_sf (Fin t) df = Fin (2 * t_sf \<bar>t\<bar> df)"
| "pvalue t_sf PInf df = Fin 0"
| "pvalue t_sf NInf df = Fin 0"
| "pvalue t_sf NaN df = NaN"

definition welch_df :: "real list \<Rightarrow> real list \<Rightarrow> real" where
  "welch_df a b =
     (let n1 = real (length a); n2 = real (length b);
          vn1 = var_ddof1 a / n1; vn2 = var_ddof1 b / n2;
          d = vn1\<^sup>2 / (n1 - 1) + vn2\<^sup>2 / (n2 - 1)
      in if d = 0 then 1 else (vn1 + vn2)\<^sup>2 / d)"

definition welch_denom :: "real list \<Rightarrow> real list \<Rightarrow> real" where
  "welch_denom a b = sqrt (var_ddof1 a / real (length a) + var_ddof1 b / real (length b))"

text \<open>
  Modelled from the spec: \<^verbatim>\<open>scipy.stats.ttest_ind(a, b, equal_var=False)\<close> belongs to scipy
  and is not among the sources. The spec gives Welch's test as
  \<open>t = (mean a - mean b) / sqrt (var a / n\<^sub>a + var b / n\<^sub>b)\<close> with the Welch-Satterthwaite
  degrees of freedom and a two-tailed p-value from the t distribution with those degrees of
  freedom, and it has a statistic that meets zero variance reported as undefined, not raised
  as an error. The quotient is a float division, as scipy computes it: a zero denominator
  gives an infinity, or \<^verbatim>\<open>NaN\<close> for \<open>0 / 0\<close>. A sample of fewer than two values has no
  variance, and both results are \<^verbatim>\<open>NaN\<close>.
\<close>

definition ttest_ind :: "(real \<Rightarrow> real \<Rightarrow> real) \<Rightarrow> real list \<Rightarrow> real list \<Rightarrow> xfloat \<times> xfloat" where
  "ttest_ind t_sf a b =
     (if length a < 2 \<or> length b < 2 then (NaN, NaN)
      else
        let t = true_divide (mean_of a - mean_of b) (welch_denom a b)
        in (t, pvalue t_sf t (welch_df a b)))"

text \<open>
  \<^verbatim>\<open>Series.astype(str)\<close> on the grouping column: a text is itself; how pandas prints any other
  entry is a parameter \<open>repr\<close>.
\<close>

fun astype_str :: "(cell \<Rightarrow> string) \<Rightarrow> cell \<Rightarrow> string" where
  "astype_str repr (Txt s) = s"
| "astype_str repr c = repr c"

text \<open>
  \<^verbatim>\<open>pd.to_numeric(df_viz.loc[df_viz[grupo].astype(str) == cat, metrica],
  errors="coerce").dropna()\<close>: the non-missing coerced metric values of the rows of one group.
\<close>

definition grupo_valores ::
  "(string \<Rightarrow> real option) \<Rightarrow> (cell \<Rightarrow> string) \<Rightarrow> dataframe \<Rightarrow> string \<Rightarrow> string \<Rightarrow> string
     \<Rightarrow> error + real list" where
  "grupo_valores parse repr df_viz grupo metrica cat =
     (case getitem df_viz grupo of
        Inl e \<Rightarrow> Inl e
      | Inr g \<Rightarrow>
          (case getitem df_viz metrica of
             Inl e \<Rightarrow> Inl e
           | Inr m \<Rightarrow>
               Inr (dropna (to_numeric parse
                 (m\<lparr>vals := map snd
                    (filter (\<lambda>p. astype_str repr (fst p) = cat) (zip (vals g) (vals m)))\<rparr>)))))"

text \<open>The groups reach \<^verbatim>\<open>ic_media\<close> as float series.\<close>

definition float_series :: "real list \<Rightarrow> series" where
  "float_series xs = \<lparr>dtype = Float64, vals = map Num xs\<rparr>"

record welch_report =
  media_a :: "real option"
  ic_a :: "real option \<times> real option"
  media_b :: "real option"
  ic_b :: "real option \<times> real option"
  delta :: "real option"
  t_stat :: xfloat
  p_val :: xfloat

datatype welch_out =
  Insuficiente string nat string nat
| Relatorio welch_report

text \<open>
  The panel from the selection of the two groups on: the report when both groups reach
  \<^verbatim>\<open>min_amostra\<close>, the warning with both counts otherwise. \<^verbatim>\<open>ic_media\<close> is called with its
  default \<^verbatim>\<open>alpha = 0.05\<close>.
\<close>

definition welch_panel ::
  "(string \<Rightarrow> real option) \<Rightarrow> (cell \<Rightarrow> string) \<Rightarrow> (real \<Rightarrow> nat \<Rightarrow> real option)
     \<Rightarrow> (real \<Rightarrow> real \<Rightarrow> real) \<Rightarrow> dataframe \<Rightarrow> string \<Rightarrow> string \<Rightarrow> string \<Rightarrow> string \<Rightarrow> int
     \<Rightarrow> error + welch_out" where
  "welch_panel parse repr t_ppf t_sf df_viz metrica grupo cat1 cat2 min_amostra =
     (case grupo_valores parse repr df_viz grupo metrica cat1 of
        Inl e \<Rightarrow> Inl e
      | Inr df_a \<Rightarrow>
          (case grupo_valores parse repr df_viz grupo metrica cat2 of
             Inl e \<Rightarrow> Inl e
           | Inr df_b \<Rightarrow>
               if int (length df_a) \<ge> min_amostra \<and> int (length df_b) \<ge> min_amostra then
                 let ma = ic_media parse t_ppf (float_series df_a) (5 / 100);
                     mb = ic_media parse t_ppf (float_series df_b) (5 / 100);
                     tp = ttest_ind t_sf df_a df_b
                 in Inr (Relatorio
                      \<lparr>media_a = fst ma, ic_a = snd ma, media_b = fst mb, ic_b = snd mb,
                       delta = nan2 (-) (fst ma) (fst mb),
                       t_stat = fst tp, p_val = snd tp\<rparr>)
               else Inr (Insuficiente cat1 (length df_a) cat2 (length df_b))))"


text \<open>
  The survival function of Student's t distribution with one degree of freedom (the Cauchy
  distribution) has a closed form; it serves as a concrete \<open>t_sf\<close>.
\<close>

definition t_sf_cauchy :: "real \<Rightarrow> real \<Rightarrow> real" where
  "t_sf_cauchy x df = 1 / 2 - arctan x / pi"

section \<open>Example tables\<close>

text \<open>A numeric column with the values 1, 2, 3, 4, 5 and 100.\<close>

definition qty_table :: dataframe where
  "qty_table =
     \<lparr>index = [0, 1, 2, 3, 4, 5],
      columns = [(''Qty'', \<lparr>dtype = Int64, vals = [Num 1, Num 2, Num 3, Num 4, Num 5, Num 100]\<rparr>)]\<rparr>"

text \<open>A text column with one entry that is no number and one missing entry.\<close>

definition mixed_series :: series where
  "mixed_series = \<lparr>dtype = Object, vals = [Num 1, Txt ''x'', Num 2, NA, Num 3]\<rparr>"

definition mixed_table :: dataframe where
  "mixed_table = \<lparr>index = [0, 1, 2, 3, 4], columns = [(''X'', mixed_series)]\<rparr>"

definition missing_series :: series where
  "missing_series = \<lparr>dtype = Object, vals = [Txt ''abc'', NA]\<rparr>"

definition no_number :: "string \<Rightarrow> real option" where
  "no_number s = None"

text \<open>Two groups of four rows: A with 10, 12, 11, 13 and B with 20, 22, 21, 19.\<close>

definition grupos_table :: dataframe where
  "grupos_table =
     \<lparr>index = [0, 1, 2, 3, 4, 5, 6, 7],
      columns =
        [(''g'', \<lparr>dtype = String,
            vals = [Txt ''A'', Txt ''B'', Txt ''A'', Txt ''B'', Txt ''A'', Txt ''B'', Txt ''A'', Txt ''B'']\<rparr>),
         (''m'', \<lparr>dtype = Float64,
            vals = [Num 10, Num 20, Num 12, Num 22, Num 11, Num 21, Num 13, Num 19]\<rparr>)]\<rparr>"


definition repr_nan :: "cell \<Rightarrow> string" where
  "repr_nan c = ''nan''"



definition parse_dt_demo :: "cell \<Rightarrow> int option" where
  "parse_dt_demo c = (if c = Txt ''2024-01-05'' then Some 1704412800000000000 else None)"

definition unnamed_table :: dataframe where
  "unnamed_table =
     \<lparr>index = [0],
      columns = [(''Qty'', \<lparr>dtype = Int64, vals = [Num 1]\<rparr>),
                 (''Unnamed: 22'', \<lparr>dtype = Float64, vals = [NA]\<rparr>)]\<rparr>"

text \<open>A table of two columns and no row.\<close>

definition empty_table :: dataframe where
  "empty_table =
     \<lparr>index = [],
      columns = [(''Qty'', \<lparr>dtype = Int64, vals = []\<rparr>), (''Nome'', \<lparr>dtype = String, vals = []\<rparr>)]\<rparr>"

section \<open>Properties of the confidence interval\<close>








lemma dropna_empty_iff: "dropna vs = [] \<longleftrightarrow> list_all (\<lambda>v. v = None) vs"
  by (induction vs rule: dropna.induct) simp_all

text \<open>
  C10. For a sample that is empty, or whose values are all missing after the numeric
  coercion, \<open>ic_media\<close> returns \<^verbatim>\<open>NaN\<close> as the point estimate together with the undefined
  interval; it raises nothing.
\<close>

theorem ic_media_no_values:
  assumes "list_all (\<lambda>v. v = None) (to_numeric parse amostra)"
  shows "ic_media parse t_ppf amostra alpha = (None, (None, None))"
  using assms by (simp add: ic_media_def Let_def dropna_empty_iff [symmetric])

theorem ic_media_no_values_witness:
  "ic_media no_number t_ppf_df2 missing_series (1 / 20) = (None, (None, None))
   \<and> ic_media no_number t_ppf_df2 \<lparr>dtype = Float64, vals = []\<rparr> (1 / 20) = (None, (None, None))"
  using ic_media_no_values [where parse = no_number and amostra = missing_series
      and t_ppf = t_ppf_df2 and alpha = "1 / 20"]
    ic_media_no_values [where parse = no_number and amostra = "\<lparr>dtype = Float64, vals = []\<rparr>"
      and t_ppf = t_ppf_df2 and alpha = "1 / 20"]
  by (simp add: to_numeric_def missing_series_def no_number_def)

section \<open>Properties of the descriptive statistics\<close>

lemma dropna_spec: "dropna vs = spec_nonmissing vs"
  by (induction vs rule: dropna.induct) (simp_all add: spec_nonmissing_def)

lemma var_spec: "1 < length xs \<Longrightarrow> var_ddof1 xs = spec_variance xs"
  by (simp add: var_ddof1_def spec_variance_def mean_of_def of_nat_diff)

lemma median_spec: "xs \<noteq> [] \<Longrightarrow> median_of xs = spec_median xs"
proof -
  assume "xs \<noteq> []"
  then have n: "0 < length xs" by simp
  show ?thesis
  proof (cases "odd (length xs)")
    case True
    then have "(length xs - 1) div 2 = length xs div 2"
      by (auto elim!: oddE)
    with True show ?thesis by (simp add: median_of_def spec_median_def Let_def)
  next
    case False
    then have "(length xs - 1) div 2 = length xs div 2 - 1"
      using n by (auto elim!: evenE)
    with False show ?thesis by (simp add: median_of_def spec_median_def Let_def)
  qed
qed

lemma min_spec: "xs \<noteq> [] \<Longrightarrow> series_min xs = Some (Min (set xs))"
proof (cases xs)
  case (Cons x r)
  have "fold min r x = Min (set (x # r))" by (rule Min.set_eq_fold [symmetric])
  with Cons show ?thesis by (simp add: series_min_def)
qed simp

lemma max_spec: "xs \<noteq> [] \<Longrightarrow> series_max xs = Some (Max (set xs))"
proof (cases xs)
  case (Cons x r)
  have "fold max r x = Max (set (x # r))" by (rule Max.set_eq_fold [symmetric])
  with Cons show ?thesis by (simp add: series_max_def)
qed simp

lemma resumo_coluna_spec: "resumo_coluna parse c col = spec_summary c (to_numeric parse col)"
proof -
  define xs where "xs = spec_nonmissing (to_numeric parse col)"
  show ?thesis
  proof (cases "xs = []")
    case True
    then show ?thesis
      by (simp add: resumo_coluna_def spec_summary_def Let_def count_series_def dropna_spec
          xs_def [symmetric])
  next
    case ne: False
    show ?thesis
    proof (cases "length xs < 2")
      case True
      with ne show ?thesis
        by (simp add: resumo_coluna_def spec_summary_def Let_def count_series_def dropna_spec
          xs_def [symmetric] series_mean_def series_median_def median_spec min_spec max_spec
          mean_of_def)
    next
      case False
      with ne show ?thesis
        by (simp add: resumo_coluna_def spec_summary_def Let_def count_series_def dropna_spec
          xs_def [symmetric] series_mean_def series_median_def median_spec min_spec max_spec
          mean_of_def series_std_def series_var_def var_spec)
    qed
  qed
qed

lemma getitem_distinct:
  assumes "distinct (map fst cols)" and "(c, s) \<in> set cols"
  shows "filter (\<lambda>p. fst p = c) cols = [(c, s)]"
  using assms
proof (induction cols)
  case Nil
  then show ?case by simp
next
  case (Cons p cols)
  show ?case
  proof (cases "fst p = c")
    case True
    have "fst p \<notin> fst ` set cols" using Cons.prems(1) by simp
    with True have "\<forall>q\<in>set cols. fst q \<noteq> c" by (auto simp: image_iff)
    then have "filter (\<lambda>p. fst p = c) cols = []" by (simp add: filter_empty_conv)
    moreover have "p = (c, s)" using Cons.prems True by (cases p) force
    ultimately show ?thesis by simp
  next
    case False
    then show ?thesis using Cons by auto
  qed
qed

lemma getitem_wf:
  assumes "distinct (map fst (columns df))" and "c \<in> fst ` set (columns df)"
  shows "getitem df c = Inr (the (map_of (columns df) c))"
proof -
  from assms(2) obtain s where s: "(c, s) \<in> set (columns df)" by force
  then have "map_of (columns df) c = Some s" using assms(1) by simp
  moreover have "filter (\<lambda>p. fst p = c) (columns df) = [(c, s)]"
    using assms(1) s by (rule getitem_distinct)
  ultimately show ?thesis by (simp add: getitem_def)
qed

lemma resumo_loop_spec:
  assumes "distinct (map fst (columns df))" and "set cs \<subseteq> fst ` set (columns df)"
  shows "resumo_loop parse df cs =
    Inr (map (\<lambda>c. spec_summary c (to_numeric parse (the (map_of (columns df) c)))) cs)"
  using assms(2)
  by (induction cs) (simp_all add: getitem_wf [OF assms(1)] resumo_coluna_spec)

text \<open>
  C2. For a table with unique column names and a list of names of its columns,
  \<open>estatisticas_basicas\<close> returns one summary row per requested column, in the requested
  order, and each row is the summary the specification words: the count of the non-missing
  coerced values, their mean and median, the standard deviation and variance with divisor
  \<open>N - 1\<close>, undefined below two values, and the minimum and maximum, undefined for no value.
  The empty list of names gives the empty result.
\<close>

theorem estatisticas_basicas_summary:
  assumes "distinct (map fst (columns df))"
    and "set colunas \<subseteq> fst ` set (columns df)"
  shows "estatisticas_basicas parse df colunas =
           Inr (map (\<lambda>c. spec_summary c (to_numeric parse (the (map_of (columns df) c)))) colunas)
       \<and> estatisticas_basicas parse df [] = Inr []"
  using resumo_loop_spec [OF assms, of parse]
  by (simp add: estatisticas_basicas_def)

theorem estatisticas_basicas_summary_witness:
  "\<exists>r. estatisticas_basicas no_number qty_table [''Qty''] = Inr [r]
     \<and> coluna r = ''Qty'' \<and> count r = 6 \<and> mean r = Some (115 / 6) \<and> median r = Some (7 / 2)
     \<and> var r = Some (9421 / 6) \<and> minimum r = Some 1 \<and> maximum r = Some 100"
  using estatisticas_basicas_summary [where df = qty_table and colunas = "[''Qty'']" and parse = no_number]
  by (simp add: qty_table_def to_numeric_def spec_summary_def spec_nonmissing_def
      spec_median_def spec_variance_def Let_def power2_eq_square)

lemma resumo_loop_rows:
  assumes "resumo_loop parse df cs = Inr rs"
  shows "length rs = length cs \<and>
    (\<forall>i<length cs. \<exists>col. getitem df (cs ! i) = Inr col \<and> rs ! i = resumo_coluna parse (cs ! i) col)"
  using assms
proof (induction cs arbitrary: rs)
  case Nil
  then show ?case by simp
next
  case (Cons c cs)
  from Cons.prems obtain col rs' where col: "getitem df c = Inr col"
    and rs': "resumo_loop parse df cs = Inr rs'"
    and rs: "rs = resumo_coluna parse c col # rs'"
    by (auto split: sum.splits)
  from Cons.IH [OF rs'] have len: "length rs' = length cs"
    and ih: "\<forall>i<length cs. \<exists>col. getitem df (cs ! i) = Inr col
        \<and> rs' ! i = resumo_coluna parse (cs ! i) col"
    by simp_all
  show ?case
  proof (intro conjI allI impI)
    show "length rs = length (c # cs)" using rs len by simp
  next
    fix i assume "i < length (c # cs)"
    then show "\<exists>col. getitem df ((c # cs) ! i) = Inr col
        \<and> rs ! i = resumo_coluna parse ((c # cs) ! i) col"
      using col rs ih by (cases i) simp_all
  qed
qed

lemma sort_nth_bounds:
  assumes "i < length (xs :: real list)"
  shows "Min (set xs) \<le> sort xs ! i \<and> sort xs ! i \<le> Max (set xs)"
proof -
  have "sort xs ! i \<in> set (sort xs)" using assms by (intro nth_mem) simp
  then have "sort xs ! i \<in> set xs" by simp
  then show ?thesis by simp
qed

lemma median_between:
  assumes "xs \<noteq> []"
  shows "Min (set xs) \<le> median_of xs \<and> median_of xs \<le> Max (set xs)"
proof -
  let ?n = "length xs"
  have n: "0 < ?n" using assms by simp
  show ?thesis
  proof (cases "odd ?n")
    case True
    have "?n div 2 < ?n" using n by simp
    from sort_nth_bounds [OF this] True show ?thesis
      by (simp add: median_of_def Let_def)
  next
    case False
    have i: "?n div 2 - 1 < ?n" and j: "?n div 2 < ?n" using n by arith+
    from sort_nth_bounds [OF i] sort_nth_bounds [OF j] False show ?thesis
      by (simp add: median_of_def Let_def)
  qed
qed

lemma resumo_coluna_order:
  assumes "minimum (resumo_coluna parse c col) = Some a"
    and "median (resumo_coluna parse c col) = Some m"
    and "maximum (resumo_coluna parse c col) = Some b"
  shows "a \<le> m \<and> m \<le> b"
proof -
  define xs where "xs = dropna (to_numeric parse col)"
  have ne: "xs \<noteq> []"
    using assms(1)
    by (auto simp: resumo_coluna_def Let_def count_series_def xs_def split: if_splits)
  have "a = Min (set xs)" "m = median_of xs" "b = Max (set xs)"
    using assms ne min_spec [OF ne] max_spec [OF ne]
    by (simp_all add: resumo_coluna_def Let_def count_series_def xs_def [symmetric]
        series_median_def)
  with median_between [OF ne] show ?thesis by simp
qed

lemma length_dropna: "length (dropna vs) = length (filter (\<lambda>v. v \<noteq> None) vs)"
  by (induction vs rule: dropna.induct) simp_all

text \<open>
  C8. In every row that \<open>estatisticas_basicas\<close> returns, the count is the number of
  non-missing coerced values of the column, and where minimum, median and maximum are all
  defined, the minimum is at most the median and the median at most the maximum.
\<close>

theorem estatisticas_basicas_order:
  assumes "estatisticas_basicas parse df colunas = Inr resumo"
    and "i < length resumo"
  shows "\<exists>col. getitem df (colunas ! i) = Inr col
      \<and> count (resumo ! i) = length (filter (\<lambda>v. v \<noteq> None) (to_numeric parse col))
      \<and> (\<forall>a m b. minimum (resumo ! i) = Some a \<and> median (resumo ! i) = Some m
             \<and> maximum (resumo ! i) = Some b \<longrightarrow> a \<le> m \<and> m \<le> b)"
proof -
  have ne: "colunas \<noteq> []"
    using assms by (auto simp: estatisticas_basicas_def)
  then have loop: "resumo_loop parse df colunas = Inr resumo"
    using assms(1) by (simp add: estatisticas_basicas_def)
  from resumo_loop_rows [OF loop] assms(2)
  obtain col where col: "getitem df (colunas ! i) = Inr col"
    and row: "resumo ! i = resumo_coluna parse (colunas ! i) col"
    by auto
  have "count (resumo ! i) = length (filter (\<lambda>v. v \<noteq> None) (to_numeric parse col))"
    by (simp add: row resumo_coluna_def Let_def count_series_def length_dropna)
  moreover have "\<forall>a m b. minimum (resumo ! i) = Some a \<and> median (resumo ! i) = Some m
             \<and> maximum (resumo ! i) = Some b \<longrightarrow> a \<le> m \<and> m \<le> b"
    unfolding row using resumo_coluna_order by blast
  ultimately show ?thesis using col by blast
qed

lemma mixed_table_resumo:
  "estatisticas_basicas no_number mixed_table [''X''] =
     Inr [resumo_coluna no_number ''X'' mixed_series]"
  by (simp add: estatisticas_basicas_def mixed_table_def getitem_def)

theorem estatisticas_basicas_order_witness:
  "\<exists>r a m b. estatisticas_basicas no_number mixed_table [''X''] = Inr [r]
     \<and> count r = 3 \<and> minimum r = Some a \<and> median r = Some m \<and> maximum r = Some b
     \<and> a \<le> m \<and> m \<le> b"
  using estatisticas_basicas_order [OF mixed_table_resumo, of 0]
  by (simp add: mixed_table_resumo resumo_coluna_def Let_def count_series_def
      to_numeric_def mixed_series_def no_number_def series_min_def series_max_def
      series_median_def median_of_def)

section \<open>Properties of the type and nullity report\<close>

lemma tipos_loop_distinct:
  assumes "distinct (map fst (columns df))" and "set cs \<subseteq> fst ` set (columns df)"
  shows "tipos_loop df n cs =
    Inr (map (\<lambda>c. info_coluna_de n c (the (map_of (columns df) c))) cs)"
  using assms(2)
  by (induction cs) (simp_all add: getitem_wf [OF assms(1)])

lemma map_of_fst:
  assumes "distinct (map fst cols)" and "p \<in> set cols"
  shows "the (map_of cols (fst p)) = snd p"
  using assms by (cases p) simp

lemma tabela_tipos_distinct:
  assumes "distinct (map fst (columns df))"
  shows "tabela_tipos df =
    Inr (map (\<lambda>p. info_coluna_de (len_df df) (fst p) (snd p)) (columns df))"
proof -
  have "tabela_tipos df = Inr (map (\<lambda>c. info_coluna_de (len_df df) c
      (the (map_of (columns df) c))) (map fst (columns df)))"
    unfolding tabela_tipos_def by (rule tipos_loop_distinct [OF assms]) simp
  also have "map (\<lambda>c. info_coluna_de (len_df df) c (the (map_of (columns df) c)))
      (map fst (columns df)) =
    map (\<lambda>p. info_coluna_de (len_df df) (fst p) (snd p)) (columns df)"
    by (simp add: map_of_fst [OF assms])
  finally show ?thesis .
qed

lemma round2_zero: "round2 0 = 0"
  by (simp add: round2_def rint_def)

text \<open>
  C9. For a table with unique column names and no row, \<open>tabela_tipos\<close> returns one row per
  column, in order, with the missing-value percentage 0: the division by the row count is
  not taken.
\<close>

theorem tabela_tipos_no_rows:
  assumes "distinct (map fst (columns df))" and "len_df df = 0"
  shows "tabela_tipos df =
    Inr (map (\<lambda>p. \<lparr>info_coluna = fst p, info_dtype = str_dtype (dtype (snd p)), info_nulos = 0\<rparr>)
      (columns df))"
  using assms(2)
  by (simp add: tabela_tipos_distinct [OF assms(1)] info_coluna_de_def round2_zero)

theorem tabela_tipos_no_rows_witness:
  "tabela_tipos empty_table =
     Inr [\<lparr>info_coluna = ''Qty'', info_dtype = ''Int64'', info_nulos = 0\<rparr>,
          \<lparr>info_coluna = ''Nome'', info_dtype = ''string'', info_nulos = 0\<rparr>]"
  using tabela_tipos_no_rows [of empty_table]
  by (simp add: empty_table_def len_df_def)

section \<open>Properties of the loader\<close>

lemma columns_filter_unnamed:
  "list_all (\<lambda>c. \<not> unnamed c) (map fst (filter (\<lambda>p. \<not> unnamed (fst p)) cols))"
  by (induction cols) simp_all

text \<open>
  C7. \<open>carregar_excel\<close> fails with \<^verbatim>\<open>FileNotFoundError\<close> exactly when the file is absent, and
  a table it returns has no column whose name matches \<^verbatim>\<open>^Unnamed\<close>.
\<close>

theorem carregar_excel_result:
  "(carregar_excel parse_dt fs = Inl FileNotFoundError \<longleftrightarrow> fs = Absent)
   \<and> (\<forall>df. carregar_excel parse_dt fs = Inr df \<longrightarrow>
         list_all (\<lambda>c. \<not> unnamed c) (map fst (columns df)))"
  by (cases fs) (auto simp: carregar_excel_def Let_def columns_filter_unnamed)

theorem carregar_excel_result_witness:
  "carregar_excel parse_dt_demo Absent = Inl FileNotFoundError
   \<and> carregar_excel parse_dt_demo Unreadable = Inl ReadError
   \<and> carregar_excel parse_dt_demo (Workbook unnamed_table) =
       Inr \<lparr>index = [0], columns = [(''Qty'', \<lparr>dtype = Int64, vals = [Num 1]\<rparr>)]\<rparr>
   \<and> \<not> unnamed ''Qty''"
  using carregar_excel_result [of parse_dt_demo Absent]
    carregar_excel_result [of parse_dt_demo "Workbook unnamed_table"]
  by (simp add: carregar_excel_def unnamed_table_def possivel_data_def lower_def lower_char_def
      unnamed_def)













section \<open>Properties of the sampler\<close>






section \<open>Properties of the two-sample test panel\<close>

lemma float_series_values: "dropna (to_numeric parse (float_series xs)) = xs"
  by (induction xs) (simp_all add: to_numeric_def float_series_def)

lemma ic_media_fst:
  "fst (ic_media parse t_ppf (float_series xs) alpha) = series_mean xs"
  by (simp add: ic_media_def Let_def float_series_values series_mean_def)

text \<open>
  C4. Where the metric and the grouping column select the values \<open>a\<close> and \<open>b\<close> of the two
  groups, the panel reports insufficient data exactly when the count of \<open>a\<close> or of \<open>b\<close> is
  below the threshold, and the report then carries the two labels and the two counts and no
  statistic. Otherwise the panel reports the two means, the two confidence intervals, the
  difference of the means and the t statistic and p-value of Welch's test.
\<close>

theorem welch_panel_insufficient:
  assumes "grupo_valores parse repr df_viz grupo metrica cat1 = Inr a"
    and "grupo_valores parse repr df_viz grupo metrica cat2 = Inr b"
  shows "((\<exists>na nb. welch_panel parse repr t_ppf t_sf df_viz metrica grupo cat1 cat2 min_amostra
              = Inr (Insuficiente cat1 na cat2 nb))
          \<longleftrightarrow> int (length a) < min_amostra \<or> int (length b) < min_amostra)
     \<and> (int (length a) < min_amostra \<or> int (length b) < min_amostra \<longrightarrow>
          welch_panel parse repr t_ppf t_sf df_viz metrica grupo cat1 cat2 min_amostra
            = Inr (Insuficiente cat1 (length a) cat2 (length b)))
     \<and> (\<not> (int (length a) < min_amostra \<or> int (length b) < min_amostra) \<longrightarrow>
          welch_panel parse repr t_ppf t_sf df_viz metrica grupo cat1 cat2 min_amostra
            = Inr (Relatorio
                \<lparr>media_a = series_mean a,
                 ic_a = snd (ic_media parse t_ppf (float_series a) (5 / 100)),
                 media_b = series_mean b,
                 ic_b = snd (ic_media parse t_ppf (float_series b) (5 / 100)),
                 delta = nan2 (-) (series_mean a) (series_mean b),
                 t_stat = fst (ttest_ind t_sf a b),
                 p_val = snd (ttest_ind t_sf a b)\<rparr>))"
  using assms by (auto simp: welch_panel_def Let_def ic_media_fst)

lemma grupos_A: "grupo_valores no_number repr_nan grupos_table ''g'' ''m'' ''A'' = Inr [10, 12, 11, 13]"
  by (simp add: grupo_valores_def grupos_table_def getitem_def to_numeric_def)

lemma grupos_B: "grupo_valores no_number repr_nan grupos_table ''g'' ''m'' ''B'' = Inr [20, 22, 21, 19]"
  by (simp add: grupo_valores_def grupos_table_def getitem_def to_numeric_def)

theorem welch_panel_insufficient_witness:
  "welch_panel no_number repr_nan t_ppf_df2 t_sf_cauchy grupos_table ''m'' ''g'' ''A'' ''B'' 20
     = Inr (Insuficiente ''A'' 4 ''B'' 4)
   \<and> (\<exists>r. welch_panel no_number repr_nan t_ppf_df2 t_sf_cauchy grupos_table ''m'' ''g'' ''A'' ''B'' 3
          = Inr (Relatorio r)
        \<and> media_a r = Some (23 / 2) \<and> media_b r = Some (41 / 2) \<and> delta r = Some (- 9)
        \<and> t_stat r = fst (ttest_ind t_sf_cauchy [10, 12, 11, 13] [20, 22, 21, 19]))"
  using welch_panel_insufficient [OF grupos_A grupos_B, of t_ppf_df2 t_sf_cauchy 20]
    welch_panel_insufficient [OF grupos_A grupos_B, of t_ppf_df2 t_sf_cauchy 3]
  by (simp add: series_mean_def mean_of_def)




















end
